theory Spec2Isabelle
  imports Complex_Main "HOL-Library.Word"
begin

section \<open>Data model of the derived state cache (network/state.go)\<close>

text \<open>
  Go's fixed-width integers are words: \<open>uint64\<close> and \<open>int64\<close> are \<open>64 word\<close>
  (a conversion between the two keeps the bit pattern, so it is the identity on the
  word), \<open>uint32\<close> is \<open>32 word\<close>. Addition and subtraction wrap around, as in Go.
\<close>

type_synonym u64 = "64 word"
type_synonym u32 = "32 word"

text \<open>
  A Go \<open>error\<close> value. The read port's errors are opaque (their text is all the code
  uses); the two errors of \<open>encoding/hex\<close> are the ones \<open>hex.DecodeString\<close> returns.
\<close>

datatype error = ExternalError string | ErrLength | InvalidByteError char

text \<open>The rows the read port returns. Only the fields state.go reads are kept.\<close>

record Layer =
  Layer :: u64

record Atx =
  AtxID :: string
  NodeID :: string
  BaseTick :: u64
  TickCount :: u64

record MalfeasanceNode =
  ID :: string

record AtxEpoch =
  TotalWeight :: u64
  TotalEffectiveNumUnits :: u64

record DBNetworkInfo =
  db_CirculatingSupply :: u64

text \<open>
  \<open>database.ReadDB\<close>: the seven queries state.go issues. Within one refresh cycle every
  call has its own (method, argument) pair, so a query is a function of its argument.
\<close>

record ReadDB =
  GetLastProcessedLayer :: "error + Layer"
  CountAtxEpoch :: "u64 \<Rightarrow> error + u64"
  CountAccounts :: "error + u64"
  GetNetworkInfo :: "error + DBNetworkInfo"
  GetAtxEpoch :: "u64 \<Rightarrow> error + AtxEpoch"
  GetAtxForEpoch :: "u64 \<Rightarrow> error + Atx list"
  GetMalfeasanceNodes :: "error + MalfeasanceNode list"

text \<open>
  \<open>NetworkUtils\<close> (the spec's EpochMath) is declared outside the files at hand: its three
  functions are parameters. The epoch identifier is an unsigned 32-bit number (the code
  reads it with \<open>Uint32()\<close>, and the exported \<open>GetEpochSubsidy\<close> takes a \<open>uint32\<close>).
\<close>

record NetworkUtils =
  nu_GetEpoch :: "u64 \<Rightarrow> u32"
  nu_GetEpochSubsidy :: "u64 \<Rightarrow> u64"
  nu_GetNumberOfSlots :: "u64 \<Rightarrow> u64 \<Rightarrow> u32 \<Rightarrow> error + u64"

text \<open>
  Go's \<open>float64\<close> is a type parameter \<open>'f\<close>; the three floating-point operations the
  snapshot uses, the zero value and the price oracle's answer are parameters over it.
\<close>

record 'f Float64 =
  f64_zero :: 'f
  f64_of_uint64 :: "u64 \<Rightarrow> 'f"
  f64_mul :: "'f \<Rightarrow> 'f \<Rightarrow> 'f"
  f64_to_uint64 :: "'f \<Rightarrow> u64"

record 'f PriceResolver =
  GetPrice :: 'f

text \<open>\<open>types.NetworkInfo\<close> and its nested next-epoch projection (a pointer: nil or a row).\<close>

record NetworkInfoNextEpoch =
  ne_Epoch :: u32
  ne_EffectiveUnitsCommited :: u64
  ne_TotalActiveSmeshers :: u64

record 'f NetworkInfo =
  Epoch :: u32
  EpochSubsidy :: u64
  ni_Layer :: u64
  TotalSlots :: u64
  ni_TotalWeight :: u64
  EffectiveUnitsCommited :: u64
  CirculatingSupply :: u64
  Price :: 'f
  MarketCap :: u64
  TotalAccounts :: u64
  AtxHex :: string
  AtxBase64 :: string
  TotalActiveSmeshers :: u64
  NextEpoch :: "NetworkInfoNextEpoch option"

text \<open>
  \<open>NetworkState\<close>: the two \<open>sync.Map\<close>s are maps; the collaborators are fields, as in Go.
\<close>

record 'f NetworkState =
  db :: ReadDB
  networkUtils :: NetworkUtils
  networkInfo :: "string \<rightharpoonup> 'f NetworkInfo"
  epochSubsidies :: "u32 \<rightharpoonup> u64"
  priceResolver :: "'f PriceResolver"

definition INFO_KEY :: string where
  "INFO_KEY = ''info''"

section \<open>Highest-ATX selection\<close>

text \<open>
  \<open>malfeasanceNodesMap\<close>: the map built by the first loop of \<open>getHigestAtx\<close>, and Go's
  read of a \<open>map[string]bool\<close>, which gives \<open>false\<close> for a missing key.
\<close>

definition malfeasanceNodesMap :: "MalfeasanceNode list \<Rightarrow> (string \<rightharpoonup> bool)" where
  "malfeasanceNodesMap malfeasanceNodes =
     foldl (\<lambda>m v. m(ID v \<mapsto> True)) Map.empty malfeasanceNodes"

definition map_index :: "(string \<rightharpoonup> bool) \<Rightarrow> string \<Rightarrow> bool" where
  "map_index m k = (case m k of None \<Rightarrow> False | Some b \<Rightarrow> b)"

text \<open>
  The second loop, with its two variables \<open>maxHeight\<close> and \<open>atxID\<close> as the accumulator.
\<close>

fun atx_loop :: "(string \<rightharpoonup> bool) \<Rightarrow> Atx list \<Rightarrow> u64 \<times> string \<Rightarrow> u64 \<times> string" where
  "atx_loop m [] acc = acc"
| "atx_loop m (atx # atxs) (maxHeight, atxID) =
     (let atxHeight = BaseTick atx + TickCount atx
      in if atxHeight > maxHeight \<and> \<not> map_index m (NodeID atx)
         then atx_loop m atxs (atxHeight, AtxID atx)
         else atx_loop m atxs (maxHeight, atxID))"

text \<open>The part of \<open>getHigestAtx\<close> after the two queries: both loops, from 0 and the empty id.\<close>

definition highest_of :: "Atx list \<Rightarrow> MalfeasanceNode list \<Rightarrow> string" where
  "highest_of atxs malfeasanceNodes =
     snd (atx_loop (malfeasanceNodesMap malfeasanceNodes) atxs (0, ''''))"

definition getHigestAtx :: "'f NetworkState \<Rightarrow> u64 \<Rightarrow> error + string" where
  "getHigestAtx n epoch =
     (case GetAtxForEpoch (db n) epoch of
        Inl err \<Rightarrow> Inl err
      | Inr atxs \<Rightarrow>
          (case GetMalfeasanceNodes (db n) of
             Inl err \<Rightarrow> Inl err
           | Inr malfeasanceNodes \<Rightarrow> Inr (highest_of atxs malfeasanceNodes)))"

text \<open>The ranking metric and eligibility, as the loop computes them.\<close>

definition height :: "Atx \<Rightarrow> u64" where
  "height atx = BaseTick atx + TickCount atx"

definition clean :: "MalfeasanceNode list \<Rightarrow> Atx \<Rightarrow> bool" where
  "clean malfeasanceNodes atx = (NodeID atx \<notin> ID ` set malfeasanceNodes)"

section \<open>The two text encodings of the ATX identifier\<close>

text \<open>
  \<open>hexToBase64\<close> calls Go's \<open>hex.DecodeString\<close> and \<open>base64.StdEncoding.EncodeToString\<close>.
  Both are standard-library functions; they are written out here as the library
  documents them. \<open>fromHexChar\<close> is the library's reverse table: a digit, a lower-case or
  an upper-case letter up to f.
\<close>

type_synonym byte = "8 word"

definition fromHexChar :: "char \<Rightarrow> nat option" where
  "fromHexChar c =
     (let n = (of_char c :: nat)
      in if 48 \<le> n \<and> n \<le> 57 then Some (n - 48)
         else if 97 \<le> n \<and> n \<le> 102 then Some (n - 87)
         else if 65 \<le> n \<and> n \<le> 70 then Some (n - 55)
         else None)"

text \<open>
  Pairs of characters are decoded left to right and the first invalid byte is reported;
  a single character left over is an invalid byte or, when it is a hex digit, \<open>ErrLength\<close>.
\<close>

fun hex_DecodeString :: "string \<Rightarrow> error + byte list" where
  "hex_DecodeString [] = Inr []"
| "hex_DecodeString [p] =
     (case fromHexChar p of None \<Rightarrow> Inl (InvalidByteError p) | Some a \<Rightarrow> Inl ErrLength)"
| "hex_DecodeString (p # q # rest) =
     (case fromHexChar p of
        None \<Rightarrow> Inl (InvalidByteError p)
      | Some a \<Rightarrow>
          (case fromHexChar q of
             None \<Rightarrow> Inl (InvalidByteError q)
           | Some b \<Rightarrow>
               (case hex_DecodeString rest of
                  Inl err \<Rightarrow> Inl err
                | Inr bytes \<Rightarrow> Inr (of_nat (a * 16 + b) # bytes))))"

definition encodeStd :: string where
  "encodeStd = ''ABCDEFGHIJKLMNOPQRSTUVWXYZabcdefghijklmnopqrstuvwxyz0123456789+/''"

definition enc :: "nat \<Rightarrow> char" where
  "enc i = encodeStd ! (i mod 64)"

text \<open>Three bytes give four characters; a tail of one or two bytes is padded with \<open>=\<close>.\<close>

fun base64_EncodeToString :: "byte list \<Rightarrow> string" where
  "base64_EncodeToString [] = []"
| "base64_EncodeToString [a] =
     [enc (unat a div 4), enc (unat a mod 4 * 16), CHR ''='', CHR ''='']"
| "base64_EncodeToString [a, b] =
     [enc (unat a div 4), enc (unat a mod 4 * 16 + unat b div 16),
      enc (unat b mod 16 * 4), CHR ''='']"
| "base64_EncodeToString (a # b # c # rest) =
     enc (unat a div 4) # enc (unat a mod 4 * 16 + unat b div 16) #
     enc (unat b mod 16 * 4 + unat c div 64) # enc (unat c mod 64) #
     base64_EncodeToString rest"

definition hexToBase64 :: "string \<Rightarrow> error + string" where
  "hexToBase64 hexString =
     (case hex_DecodeString hexString of
        Inl err \<Rightarrow> Inl err
      | Inr bytes \<Rightarrow> Inr (base64_EncodeToString bytes))"

section \<open>The snapshot refresh cycle\<close>

text \<open>
  \<open>fetchNetworkInfo\<close>: ten steps, each with an early return that prints a line and leaves
  the state alone, then the one \<open>Store\<close>. The result is the printed line (the format's
  prefix and the error), if any, and the state. The conversions \<open>uint64(epoch - 1)\<close> and
  \<open>uint64(epoch)\<close> are \<open>ucast\<close> of the 32-bit epoch.
\<close>

definition genisesAccounts :: u64 where
  "genisesAccounts = 28"

definition fetchNetworkInfo ::
  "'f Float64 \<Rightarrow> 'f NetworkState \<Rightarrow> (string \<times> error) option \<times> 'f NetworkState" where
  "fetchNetworkInfo F n =
     (case GetLastProcessedLayer (db n) of
        Inl err \<Rightarrow> (Some (''Failed to get last processed layer: '', err), n)
      | Inr layer \<Rightarrow>
     let epoch = nu_GetEpoch (networkUtils n) (Layer layer) in
     (case CountAtxEpoch (db n) (ucast (epoch - 1)) of
        Inl err \<Rightarrow> (Some (''Failed to count atx epoch: '', err), n)
      | Inr atxEpoch \<Rightarrow>
     (case CountAtxEpoch (db n) (ucast epoch) of
        Inl err \<Rightarrow> (Some (''Failed to count next atx epoch: '', err), n)
      | Inr atxNextEpoch \<Rightarrow>
     (case CountAccounts (db n) of
        Inl err \<Rightarrow> (Some (''Failed to count accounts: '', err), n)
      | Inr totalAccounts \<Rightarrow>
     (case GetNetworkInfo (db n) of
        Inl err \<Rightarrow> (Some (''Failed to get network info: '', err), n)
      | Inr networkInfoRow \<Rightarrow>
     (case GetAtxEpoch (db n) (ucast (epoch - 1)) of
        Inl err \<Rightarrow> (Some (''Failed to get epoch totals: '', err), n)
      | Inr atxEpochTotals \<Rightarrow>
     (case GetAtxEpoch (db n) (ucast epoch) of
        Inl err \<Rightarrow> (Some (''Failed to get next epoch totals: '', err), n)
      | Inr atxNextEpochTotals \<Rightarrow>
     (case getHigestAtx n (ucast (epoch - 1)) of
        Inl err \<Rightarrow> (Some (''Failed to get highest atx: '', err), n)
      | Inr hexAtx \<Rightarrow>
     (case hexToBase64 hexAtx of
        Inl err \<Rightarrow> (Some (''Failed to get base64 atx: '', err), n)
      | Inr base64Atx \<Rightarrow>
     (case nu_GetNumberOfSlots (networkUtils n)
             (TotalWeight atxEpochTotals) (TotalWeight atxEpochTotals) epoch of
        Inl err \<Rightarrow> (Some (''Failed to get total slots: '', err), n)
      | Inr totalSlots \<Rightarrow>
     let price = GetPrice (priceResolver n) in
     (None,
      n\<lparr>networkInfo := (networkInfo n)(INFO_KEY \<mapsto>
        \<lparr>Epoch = epoch,
         EpochSubsidy = nu_GetEpochSubsidy (networkUtils n) (ucast epoch),
         ni_Layer = Layer layer,
         TotalSlots = totalSlots,
         ni_TotalWeight = TotalWeight atxEpochTotals,
         EffectiveUnitsCommited = TotalEffectiveNumUnits atxEpochTotals,
         CirculatingSupply = db_CirculatingSupply networkInfoRow,
         Price = price,
         MarketCap =
           f64_to_uint64 F (f64_mul F (f64_of_uint64 F (db_CirculatingSupply networkInfoRow)) price),
         TotalAccounts = totalAccounts + genisesAccounts,
         AtxHex = hexAtx,
         AtxBase64 = base64Atx,
         TotalActiveSmeshers = atxEpoch,
         NextEpoch = Some
           \<lparr>ne_Epoch = epoch + 1,
            ne_EffectiveUnitsCommited = TotalEffectiveNumUnits atxNextEpochTotals,
            ne_TotalActiveSmeshers = atxNextEpoch\<rparr>\<rparr>)\<rparr>)))))))))))"

section \<open>The read contract\<close>

text \<open>\<open>&types.NetworkInfo{}\<close>: every field at its zero value, the nested pointer nil.\<close>

definition zero_NetworkInfo :: "'f Float64 \<Rightarrow> 'f NetworkInfo" where
  "zero_NetworkInfo F =
     \<lparr>Epoch = 0, EpochSubsidy = 0, ni_Layer = 0, TotalSlots = 0, ni_TotalWeight = 0,
      EffectiveUnitsCommited = 0, CirculatingSupply = 0, Price = f64_zero F, MarketCap = 0,
      TotalAccounts = 0, AtxHex = '''', AtxBase64 = '''', TotalActiveSmeshers = 0,
      NextEpoch = None\<rparr>"

definition GetInfo :: "'f Float64 \<Rightarrow> 'f NetworkState \<Rightarrow> 'f NetworkInfo" where
  "GetInfo F n =
     (case networkInfo n INFO_KEY of
        None \<Rightarrow> zero_NetworkInfo F
      | Some info \<Rightarrow> info)"

definition GetEpochSubsidy :: "'f NetworkState \<Rightarrow> u32 \<Rightarrow> u64" where
  "GetEpochSubsidy n epoch =
     (case epochSubsidies n epoch of
        None \<Rightarrow> 0
      | Some subsidy \<Rightarrow> subsidy)"

section \<open>The subsidy-table refresh\<close>

text \<open>
  The loop \<open>for i := epoch + 1; i >= 2; i--\<close> over the 32-bit epoch, with the table as
  its state: the key is \<open>i.Uint32()\<close>, the value EpochMath's subsidy at \<open>uint64(i)\<close>.
\<close>

function subsidy_loop :: "NetworkUtils \<Rightarrow> u32 \<Rightarrow> (u32 \<rightharpoonup> u64) \<Rightarrow> (u32 \<rightharpoonup> u64)" where
  "subsidy_loop u i t =
     (if 2 \<le> i
      then subsidy_loop u (i - 1) (t(i \<mapsto> nu_GetEpochSubsidy u (ucast i)))
      else t)"
  by pat_completeness auto
termination
proof (relation "measure (\<lambda>(u, i, t). unat i)")
  show "wf (measure (\<lambda>(u, i, t). unat i))" by simp
next
  fix u :: NetworkUtils and i :: u32 and t :: "u32 \<rightharpoonup> u64"
  assume "2 \<le> i"
  then have "i \<noteq> 0" by auto
  then have "unat (i - 1) < unat i"
    by (simp add: unat_minus_one unat_gt_0)
  then show "((u, i - 1, t(i \<mapsto> nu_GetEpochSubsidy u (ucast i))), (u, i, t))
             \<in> measure (\<lambda>(u, i, t). unat i)"
    by simp
qed

declare subsidy_loop.simps [simp del]

definition calculateEpochSubsidies ::
  "'f NetworkState \<Rightarrow> (string \<times> error) option \<times> 'f NetworkState" where
  "calculateEpochSubsidies n =
     (case GetLastProcessedLayer (db n) of
        Inl err \<Rightarrow> (Some (''Failed to get last processed layer: '', err), n)
      | Inr layer \<Rightarrow>
          let epoch = nu_GetEpoch (networkUtils n) (Layer layer)
          in (None, n\<lparr>epochSubsidies :=
                subsidy_loop (networkUtils n) (epoch + 1) (epochSubsidies n)\<rparr>))"

text \<open>
  \<open>NewNetworkState\<close>: both maps start empty; one snapshot cycle and one subsidy refresh
  run before the state is handed out (the two tickers repeat them later).
\<close>

definition NewNetworkState ::
  "'f Float64 \<Rightarrow> ReadDB \<Rightarrow> NetworkUtils \<Rightarrow> 'f PriceResolver \<Rightarrow> 'f NetworkState" where
  "NewNetworkState F d u p =
     (let state = \<lparr>db = d, networkUtils = u, networkInfo = Map.empty,
                    epochSubsidies = Map.empty, priceResolver = p\<rparr>;
          state1 = snd (fetchNetworkInfo F state);
          state2 = snd (calculateEpochSubsidies state1)
      in state2)"

section \<open>The ingestion sink (package sink)\<close>

subsection \<open>Bootstrap\<close>









subsection \<open>The consumption loops\<close>

text \<open>
  A message carries its payload; the worker answers it with \<open>Ack\<close> or \<open>Nak\<close>. What a worker
  has done is the list of facts it saved and the list of its answers, in order.
\<close>

record Msg =
  Data :: string

datatype reply = Ack | Nak

record 'r SinkState =
  saved :: "'r list"
  replies :: "(Msg \<times> reply) list"

text \<open>
  A worker is running, or the process has ended: by the panic of reading a field through
  a nil pointer, or by \<open>log.Fatal\<close>, which exits with status 1.
\<close>

datatype status = Running | NilPointerPanic | FatalExit

datatype fetch_error = ErrTimeout | OtherFetchError string

text \<open>
  The body of \<open>for _, msg := range msgs\<close> in \<open>StartRewardsSink\<close>. \<open>Unmarshal\<close> is
  \<open>json.Unmarshal\<close> into a nil \<open>*natsS.Reward\<close>: it gives the pointer it leaves behind
  (nil or a decoded record) and its error. \<open>reward.Layer\<close> is read for the print before
  \<open>errJson\<close> is looked at; the \<open>continue\<close> after \<open>log.Fatal\<close> is never reached.
  \<open>SaveReward\<close> is the write port: it gives its error, if any.
\<close>

fun rewards_msgs ::
  "(string \<Rightarrow> 'r option \<times> error option) \<Rightarrow> ('r \<Rightarrow> error option) \<Rightarrow>
   Msg list \<Rightarrow> 'r SinkState \<Rightarrow> status \<times> 'r SinkState" where
  "rewards_msgs Unmarshal SaveReward [] st = (Running, st)"
| "rewards_msgs Unmarshal SaveReward (msg # msgs) st =
     (case Unmarshal (Data msg) of
        (None, errJson) \<Rightarrow> (NilPointerPanic, st)
      | (Some reward, Some err) \<Rightarrow> (FatalExit, st)
      | (Some reward, None) \<Rightarrow>
          (case SaveReward reward of
             Some saveErr \<Rightarrow>
               rewards_msgs Unmarshal SaveReward msgs
                 (st\<lparr>replies := replies st @ [(msg, Nak)]\<rparr>)
           | None \<Rightarrow>
               rewards_msgs Unmarshal SaveReward msgs
                 (st\<lparr>saved := saved st @ [reward], replies := replies st @ [(msg, Ack)]\<rparr>)))"

text \<open>
  One turn of the outer \<open>for\<close> of \<open>StartRewardsSink\<close>, given what \<open>Fetch\<close> returned: a
  timeout goes round again, anything else walks the batch.
\<close>

definition rewards_turn ::
  "(string \<Rightarrow> 'r option \<times> error option) \<Rightarrow> ('r \<Rightarrow> error option) \<Rightarrow>
   Msg list \<times> fetch_error option \<Rightarrow> 'r SinkState \<Rightarrow> status \<times> 'r SinkState" where
  "rewards_turn Unmarshal SaveReward fetched st =
     (case fetched of (msgs, err) \<Rightarrow>
        if err = Some ErrTimeout then (Running, st)
        else rewards_msgs Unmarshal SaveReward msgs st)"

text \<open>
  \<open>StartLayersSink\<close> is the same loop over \<open>*natsS.LayerUpdate\<close>, with one more test at
  the head of the body: \<open>Fetch\<close>'s error is compared with the timeout again, and the batch
  is left on a match.
\<close>

fun layers_msgs ::
  "(string \<Rightarrow> 'l option \<times> error option) \<Rightarrow> ('l \<Rightarrow> error option) \<Rightarrow>
   fetch_error option \<Rightarrow> Msg list \<Rightarrow> 'l SinkState \<Rightarrow> status \<times> 'l SinkState" where
  "layers_msgs Unmarshal SaveLayer err [] st = (Running, st)"
| "layers_msgs Unmarshal SaveLayer err (msg # msgs) st =
     (if err = Some ErrTimeout then (Running, st)
      else
        (case Unmarshal (Data msg) of
           (None, errJson) \<Rightarrow> (NilPointerPanic, st)
         | (Some layer, Some jsonErr) \<Rightarrow> (FatalExit, st)
         | (Some layer, None) \<Rightarrow>
             (case SaveLayer layer of
                Some saveErr \<Rightarrow>
                  layers_msgs Unmarshal SaveLayer err msgs
                    (st\<lparr>replies := replies st @ [(msg, Nak)]\<rparr>)
              | None \<Rightarrow>
                  layers_msgs Unmarshal SaveLayer err msgs
                    (st\<lparr>saved := saved st @ [layer], replies := replies st @ [(msg, Ack)]\<rparr>))))"

definition layers_turn ::
  "(string \<Rightarrow> 'l option \<times> error option) \<Rightarrow> ('l \<Rightarrow> error option) \<Rightarrow>
   Msg list \<times> fetch_error option \<Rightarrow> 'l SinkState \<Rightarrow> status \<times> 'l SinkState" where
  "layers_turn Unmarshal SaveLayer fetched st =
     (case fetched of (msgs, err) \<Rightarrow>
        if err = Some ErrTimeout then (Running, st)
        else layers_msgs Unmarshal SaveLayer err msgs st)"

text \<open>
  The worker's endless \<open>for\<close>, driven by the batches \<open>Fetch\<close> hands it: it goes on to the
  next batch while it is running and stops for good once the process has ended.
\<close>

fun StartRewardsSink ::
  "(string \<Rightarrow> 'r option \<times> error option) \<Rightarrow> ('r \<Rightarrow> error option) \<Rightarrow>
   (Msg list \<times> fetch_error option) list \<Rightarrow> 'r SinkState \<Rightarrow> status \<times> 'r SinkState" where
  "StartRewardsSink Unmarshal SaveReward [] st = (Running, st)"
| "StartRewardsSink Unmarshal SaveReward (fetched # rest) st =
     (case rewards_turn Unmarshal SaveReward fetched st of
        (Running, st') \<Rightarrow> StartRewardsSink Unmarshal SaveReward rest st'
      | (NilPointerPanic, st') \<Rightarrow> (NilPointerPanic, st')
      | (FatalExit, st') \<Rightarrow> (FatalExit, st'))"

fun StartLayersSink ::
  "(string \<Rightarrow> 'l option \<times> error option) \<Rightarrow> ('l \<Rightarrow> error option) \<Rightarrow>
   (Msg list \<times> fetch_error option) list \<Rightarrow> 'l SinkState \<Rightarrow> status \<times> 'l SinkState" where
  "StartLayersSink Unmarshal SaveLayer [] st = (Running, st)"
| "StartLayersSink Unmarshal SaveLayer (fetched # rest) st =
     (case layers_turn Unmarshal SaveLayer fetched st of
        (Running, st') \<Rightarrow> StartLayersSink Unmarshal SaveLayer rest st'
      | (NilPointerPanic, st') \<Rightarrow> (NilPointerPanic, st')
      | (FatalExit, st') \<Rightarrow> (FatalExit, st'))"

section \<open>Vocabulary of the properties\<close>

text \<open>
  Some step of a refresh cycle fails: the steps in the order of \<open>fetchNetworkInfo\<close>, each
  later one read at the values the earlier ones returned.
\<close>

definition some_step_fails :: "'f NetworkState \<Rightarrow> bool" where
  "some_step_fails n =
     (case GetLastProcessedLayer (db n) of
        Inl err \<Rightarrow> True
      | Inr layer \<Rightarrow>
          (let epoch = nu_GetEpoch (networkUtils n) (Layer layer)
           in isl (CountAtxEpoch (db n) (ucast (epoch - 1)))
              \<or> isl (CountAtxEpoch (db n) (ucast epoch))
              \<or> isl (CountAccounts (db n))
              \<or> isl (GetNetworkInfo (db n))
              \<or> isl (GetAtxEpoch (db n) (ucast (epoch - 1)))
              \<or> isl (GetAtxEpoch (db n) (ucast epoch))
              \<or> (case getHigestAtx n (ucast (epoch - 1)) of
                    Inl err \<Rightarrow> True
                  | Inr hexAtx \<Rightarrow> isl (hexToBase64 hexAtx))
              \<or> (case GetAtxEpoch (db n) (ucast (epoch - 1)) of
                    Inl err \<Rightarrow> True
                  | Inr atxEpochTotals \<Rightarrow>
                      isl (nu_GetNumberOfSlots (networkUtils n)
                             (TotalWeight atxEpochTotals) (TotalWeight atxEpochTotals) epoch))))"

text \<open>What \<open>GetInfo\<close> answers right after one refresh cycle.\<close>

abbreviation snapshot_after :: "'f Float64 \<Rightarrow> 'f NetworkState \<Rightarrow> 'f NetworkInfo" where
  "snapshot_after F n \<equiv> GetInfo F (snd (fetchNetworkInfo F n))"

section \<open>Example inputs\<close>

text \<open>
  The spec's scenario: last processed layer 4000 in epoch 10; epoch 9 has 12 active
  smeshers, total weight 1000 and 50 effective units; epoch 10 has 15 smeshers; 100
  accounts; circulating supply 2,000,000 at price 0.05. Among the ATXs the highest is
  authored by the flagged node \<open>m1\<close>, and two clean ones tie below it.
\<close>

definition scenario_atxs :: "Atx list" where
  "scenario_atxs =
     [\<lparr>AtxID = ''aa01'', NodeID = ''n1'', BaseTick = 100, TickCount = 5\<rparr>,
      \<lparr>AtxID = ''bb02'', NodeID = ''m1'', BaseTick = 200, TickCount = 50\<rparr>,
      \<lparr>AtxID = ''cc03'', NodeID = ''n2'', BaseTick = 100, TickCount = 20\<rparr>,
      \<lparr>AtxID = ''dd04'', NodeID = ''n3'', BaseTick = 110, TickCount = 10\<rparr>]"

definition scenario_db :: ReadDB where
  "scenario_db =
     \<lparr>GetLastProcessedLayer = Inr \<lparr>Layer = 4000\<rparr>,
      CountAtxEpoch = (\<lambda>e. if e = 9 then Inr 12 else if e = 10 then Inr 15
                            else Inl (ExternalError ''no rows'')),
      CountAccounts = Inr 100,
      GetNetworkInfo = Inr \<lparr>db_CirculatingSupply = 2000000\<rparr>,
      GetAtxEpoch = (\<lambda>e. if e = 9 then Inr \<lparr>TotalWeight = 1000, TotalEffectiveNumUnits = 50\<rparr>
                          else if e = 10 then Inr \<lparr>TotalWeight = 1200, TotalEffectiveNumUnits = 60\<rparr>
                          else Inl (ExternalError ''no rows'')),
      GetAtxForEpoch = (\<lambda>e. if e = 9 then Inr scenario_atxs else Inr []),
      GetMalfeasanceNodes = Inr [\<lparr>ID = ''m1''\<rparr>]\<rparr>"

definition scenario_utils :: NetworkUtils where
  "scenario_utils =
     \<lparr>nu_GetEpoch = (\<lambda>layer. ucast (layer div 400)),
      nu_GetEpochSubsidy = (\<lambda>epoch. if epoch = 3 then 7 else 5),
      nu_GetNumberOfSlots = (\<lambda>weight totalWeight epoch.
         Inr (weight + 2 * totalWeight + ucast epoch))\<rparr>"

text \<open>A stand-in for \<open>float64\<close> on the reals, exact on the scenario's numbers.\<close>

definition real_Float64 :: "real Float64" where
  "real_Float64 =
     \<lparr>f64_zero = 0,
      f64_of_uint64 = (\<lambda>w. real (unat w)),
      f64_mul = (\<lambda>x y. x * y),
      f64_to_uint64 = (\<lambda>x. of_nat (nat \<lfloor>x\<rfloor>))\<rparr>"

definition scenario_state :: "real NetworkState" where
  "scenario_state =
     \<lparr>db = scenario_db, networkUtils = scenario_utils, networkInfo = Map.empty,
      epochSubsidies = Map.empty, priceResolver = \<lparr>GetPrice = 1 / 20\<rparr>\<rparr>"

text \<open>The scenario with one ATX only, authored by the flagged node.\<close>

definition flagged_only_state :: "real NetworkState" where
  "flagged_only_state =
     scenario_state\<lparr>db := scenario_db\<lparr>GetAtxForEpoch :=
       (\<lambda>e. Inr [\<lparr>AtxID = ''bb02'', NodeID = ''m1'', BaseTick = 200, TickCount = 50\<rparr>])\<rparr>\<rparr>"

text \<open>
  A state that already holds a published snapshot (of epoch 9) and whose accounts query
  fails.
\<close>

definition stale_state :: "real NetworkState" where
  "stale_state =
     scenario_state
       \<lparr>db := scenario_db\<lparr>CountAccounts := Inl (ExternalError ''connection lost'')\<rparr>,
        networkInfo := [INFO_KEY \<mapsto> (zero_NetworkInfo real_Float64)\<lparr>Epoch := 9\<rparr>]\<rparr>"

text \<open>
  A network in its first epoch: layer 7 is in epoch 0, and the read port has rows for
  the epoch numbers 0 and 4294967295 only.
\<close>

definition genesis_db :: ReadDB where
  "genesis_db =
     \<lparr>GetLastProcessedLayer = Inr \<lparr>Layer = 7\<rparr>,
      CountAtxEpoch = (\<lambda>e. if e = 4294967295 then Inr 3 else if e = 0 then Inr 4
                            else Inl (ExternalError ''no rows'')),
      CountAccounts = Inr 0,
      GetNetworkInfo = Inr \<lparr>db_CirculatingSupply = 0\<rparr>,
      GetAtxEpoch = (\<lambda>e. if e = 4294967295
                          then Inr \<lparr>TotalWeight = 11, TotalEffectiveNumUnits = 2\<rparr>
                          else if e = 0 then Inr \<lparr>TotalWeight = 13, TotalEffectiveNumUnits = 5\<rparr>
                          else Inl (ExternalError ''no rows'')),
      GetAtxForEpoch = (\<lambda>e. if e = 4294967295
                             then Inr [\<lparr>AtxID = ''ee05'', NodeID = ''n1'', BaseTick = 1, TickCount = 1\<rparr>]
                             else Inl (ExternalError ''no rows'')),
      GetMalfeasanceNodes = Inr []\<rparr>"

definition genesis_state :: "real NetworkState" where
  "genesis_state =
     \<lparr>db = genesis_db, networkUtils = scenario_utils, networkInfo = Map.empty,
      epochSubsidies = Map.empty, priceResolver = \<lparr>GetPrice = 1 / 20\<rparr>\<rparr>"

text \<open>
  A decoder for the sink's workers: the payload \<open>{}\<close> decodes (to the fact 0), anything
  else is a syntax error that leaves the pointer nil; the write port saves every fact.
\<close>

definition example_Unmarshal :: "string \<Rightarrow> nat option \<times> error option" where
  "example_Unmarshal data =
     (if data = ''{}'' then (Some 0, None)
      else (None, Some (ExternalError ''unexpected end of JSON input'')))"

definition example_Save :: "nat \<Rightarrow> error option" where
  "example_Save saved_fact = None"

section \<open>Auxiliary lemmas\<close>

subsection \<open>The two loops of the selection\<close>

lemma map_index_foldl:
  "map_index (foldl (\<lambda>m v. m(ID v \<mapsto> True)) m0 ns) k = (map_index m0 k \<or> k \<in> ID ` set ns)"
  by (induction ns arbitrary: m0) (auto simp: map_index_def)

lemma map_index_malfeasanceNodesMap:
  "map_index (malfeasanceNodesMap ns) k = (k \<in> ID ` set ns)"
  by (simp add: malfeasanceNodesMap_def map_index_foldl) (simp add: map_index_def)

lemma atx_loop_char:
  "atx_loop m xs (h, i) = (h', i') \<Longrightarrow>
   (if \<exists>a\<in>set xs. \<not> map_index m (NodeID a) \<and> h < height a
    then \<exists>pre a post. xs = pre @ a # post \<and> \<not> map_index m (NodeID a) \<and> h < height a \<and>
           h' = height a \<and> i' = AtxID a \<and>
           (\<forall>b\<in>set pre. \<not> map_index m (NodeID b) \<longrightarrow> height b < height a) \<and>
           (\<forall>b\<in>set post. \<not> map_index m (NodeID b) \<longrightarrow> height b \<le> height a)
    else h' = h \<and> i' = i)"
proof (induction xs arbitrary: h i)
  case Nil
  then show ?case by simp
next
  case (Cons x xs)
  let ?el = "\<lambda>a. \<not> map_index m (NodeID a)"
  show ?case
  proof (cases "h < height x \<and> ?el x")
    case True
    with Cons.prems have run: "atx_loop m xs (height x, AtxID x) = (h', i')"
      by (simp add: height_def)
    note ih = Cons.IH [OF run]
    show ?thesis
    proof (cases "\<exists>a\<in>set xs. ?el a \<and> height x < height a")
      case later: True
      with ih obtain pre a post where d: "xs = pre @ a # post" "?el a" "height x < height a"
        "h' = height a" "i' = AtxID a"
        "\<forall>b\<in>set pre. ?el b \<longrightarrow> height b < height a"
        "\<forall>b\<in>set post. ?el b \<longrightarrow> height b \<le> height a"
        by auto
      from d True have "x # xs = (x # pre) @ a # post \<and> ?el a \<and> h < height a \<and>
           h' = height a \<and> i' = AtxID a \<and>
           (\<forall>b\<in>set (x # pre). ?el b \<longrightarrow> height b < height a) \<and>
           (\<forall>b\<in>set post. ?el b \<longrightarrow> height b \<le> height a)"
        by auto
      then have "\<exists>pre a post. x # xs = pre @ a # post \<and> ?el a \<and> h < height a \<and>
           h' = height a \<and> i' = AtxID a \<and>
           (\<forall>b\<in>set pre. ?el b \<longrightarrow> height b < height a) \<and>
           (\<forall>b\<in>set post. ?el b \<longrightarrow> height b \<le> height a)"
        by blast
      moreover from True have "\<exists>a\<in>set (x # xs). ?el a \<and> h < height a" by auto
      ultimately show ?thesis by simp
    next
      case none: False
      with ih have r: "h' = height x" "i' = AtxID x" by auto
      from none have "\<forall>b\<in>set xs. ?el b \<longrightarrow> height b \<le> height x"
        by (auto simp: not_less)
      with r True have "x # xs = [] @ x # xs \<and> ?el x \<and> h < height x \<and>
           h' = height x \<and> i' = AtxID x \<and>
           (\<forall>b\<in>set []. ?el b \<longrightarrow> height b < height x) \<and>
           (\<forall>b\<in>set xs. ?el b \<longrightarrow> height b \<le> height x)"
        by simp
      then have "\<exists>pre a post. x # xs = pre @ a # post \<and> ?el a \<and> h < height a \<and>
           h' = height a \<and> i' = AtxID a \<and>
           (\<forall>b\<in>set pre. ?el b \<longrightarrow> height b < height a) \<and>
           (\<forall>b\<in>set post. ?el b \<longrightarrow> height b \<le> height a)"
        by blast
      moreover from True have "\<exists>a\<in>set (x # xs). ?el a \<and> h < height a" by auto
      ultimately show ?thesis by simp
    qed
  next
    case False
    with Cons.prems have run: "atx_loop m xs (h, i) = (h', i')"
      by (auto simp: height_def)
    note ih = Cons.IH [OF run]
    show ?thesis
    proof (cases "\<exists>a\<in>set xs. ?el a \<and> h < height a")
      case later: True
      with ih obtain pre a post where d: "xs = pre @ a # post" "?el a" "h < height a"
        "h' = height a" "i' = AtxID a"
        "\<forall>b\<in>set pre. ?el b \<longrightarrow> height b < height a"
        "\<forall>b\<in>set post. ?el b \<longrightarrow> height b \<le> height a"
        by auto
      from False d have "?el x \<longrightarrow> height x < height a" by (auto simp: not_less)
      with d have "x # xs = (x # pre) @ a # post \<and> ?el a \<and> h < height a \<and>
           h' = height a \<and> i' = AtxID a \<and>
           (\<forall>b\<in>set (x # pre). ?el b \<longrightarrow> height b < height a) \<and>
           (\<forall>b\<in>set post. ?el b \<longrightarrow> height b \<le> height a)"
        by auto
      then have "\<exists>pre a post. x # xs = pre @ a # post \<and> ?el a \<and> h < height a \<and>
           h' = height a \<and> i' = AtxID a \<and>
           (\<forall>b\<in>set pre. ?el b \<longrightarrow> height b < height a) \<and>
           (\<forall>b\<in>set post. ?el b \<longrightarrow> height b \<le> height a)"
        by blast
      moreover from later have "\<exists>a\<in>set (x # xs). ?el a \<and> h < height a" by auto
      ultimately show ?thesis by simp
    next
      case none: False
      with ih have r: "h' = h" "i' = i" by auto
      from none False have neg: "\<not> (\<exists>a\<in>set (x # xs). ?el a \<and> h < height a)" by auto
      from r show ?thesis by (simp only: neg if_False simp_thms)
    qed
  qed
qed

lemma highest_of_char:
  "if \<exists>a\<in>set atxs. clean nodes a \<and> 0 < height a
   then \<exists>pre a post. atxs = pre @ a # post \<and> clean nodes a \<and> 0 < height a \<and>
          highest_of atxs nodes = AtxID a \<and>
          (\<forall>b\<in>set pre. clean nodes b \<longrightarrow> height b < height a) \<and>
          (\<forall>b\<in>set post. clean nodes b \<longrightarrow> height b \<le> height a)
   else highest_of atxs nodes = ''''"
proof -
  obtain h' i' where run: "atx_loop (malfeasanceNodesMap nodes) atxs (0, '''') = (h', i')"
    by (cases "atx_loop (malfeasanceNodesMap nodes) atxs (0, '''')") auto
  then have r: "highest_of atxs nodes = i'" by (simp add: highest_of_def)
  show ?thesis
  proof (cases "\<exists>a\<in>set atxs. clean nodes a \<and> 0 < height a")
    case True
    then have "\<exists>a\<in>set atxs. \<not> map_index (malfeasanceNodesMap nodes) (NodeID a) \<and> 0 < height a"
      by (simp add: map_index_malfeasanceNodesMap clean_def)
    with atx_loop_char [OF run]
    have "\<exists>pre a post. atxs = pre @ a # post \<and>
           \<not> map_index (malfeasanceNodesMap nodes) (NodeID a) \<and> 0 < height a \<and>
           h' = height a \<and> i' = AtxID a \<and>
           (\<forall>b\<in>set pre. \<not> map_index (malfeasanceNodesMap nodes) (NodeID b) \<longrightarrow> height b < height a) \<and>
           (\<forall>b\<in>set post. \<not> map_index (malfeasanceNodesMap nodes) (NodeID b) \<longrightarrow> height b \<le> height a)"
      by (simp only: if_True)
    then have "\<exists>pre a post. atxs = pre @ a # post \<and> clean nodes a \<and> 0 < height a \<and>
          highest_of atxs nodes = AtxID a \<and>
          (\<forall>b\<in>set pre. clean nodes b \<longrightarrow> height b < height a) \<and>
          (\<forall>b\<in>set post. clean nodes b \<longrightarrow> height b \<le> height a)"
      unfolding r map_index_malfeasanceNodesMap clean_def by blast
    with True show ?thesis by (simp only: if_True)
  next
    case False
    then have "\<not> (\<exists>a\<in>set atxs. \<not> map_index (malfeasanceNodesMap nodes) (NodeID a) \<and> 0 < height a)"
      by (simp add: map_index_malfeasanceNodesMap clean_def)
    with atx_loop_char [OF run] have "i' = ''''" by (simp only: if_False)
    with False r show ?thesis by (simp only: if_False)
  qed
qed

lemma hexToBase64_empty: "hexToBase64 '''' = Inr ''''"
  by (simp add: hexToBase64_def)

lemma highest_of_none_clean:
  assumes "\<forall>a\<in>set atxs. \<not> clean nodes a"
  shows "highest_of atxs nodes = ''''"
proof -
  from assms have "\<not> (\<exists>a\<in>set atxs. clean nodes a \<and> 0 < height a)" by auto
  with highest_of_char [of atxs nodes] show ?thesis by (simp only: if_False)
qed

subsection \<open>The outcomes of a refresh cycle\<close>

lemma fetchNetworkInfo_success:
  assumes "GetLastProcessedLayer (db n) = Inr layer"
    and "nu_GetEpoch (networkUtils n) (Layer layer) = epoch"
    and "CountAtxEpoch (db n) (ucast (epoch - 1)) = Inr atxEpoch"
    and "CountAtxEpoch (db n) (ucast epoch) = Inr atxNextEpoch"
    and "CountAccounts (db n) = Inr totalAccounts"
    and "GetNetworkInfo (db n) = Inr networkInfoRow"
    and "GetAtxEpoch (db n) (ucast (epoch - 1)) = Inr atxEpochTotals"
    and "GetAtxEpoch (db n) (ucast epoch) = Inr atxNextEpochTotals"
    and "getHigestAtx n (ucast (epoch - 1)) = Inr hexAtx"
    and "hexToBase64 hexAtx = Inr base64Atx"
    and "nu_GetNumberOfSlots (networkUtils n)
           (TotalWeight atxEpochTotals) (TotalWeight atxEpochTotals) epoch = Inr totalSlots"
  shows "fetchNetworkInfo F n =
     (None,
      n\<lparr>networkInfo := (networkInfo n)(INFO_KEY \<mapsto>
        \<lparr>Epoch = epoch,
         EpochSubsidy = nu_GetEpochSubsidy (networkUtils n) (ucast epoch),
         ni_Layer = Layer layer,
         TotalSlots = totalSlots,
         ni_TotalWeight = TotalWeight atxEpochTotals,
         EffectiveUnitsCommited = TotalEffectiveNumUnits atxEpochTotals,
         CirculatingSupply = db_CirculatingSupply networkInfoRow,
         Price = GetPrice (priceResolver n),
         MarketCap =
           f64_to_uint64 F (f64_mul F (f64_of_uint64 F (db_CirculatingSupply networkInfoRow))
             (GetPrice (priceResolver n))),
         TotalAccounts = totalAccounts + genisesAccounts,
         AtxHex = hexAtx,
         AtxBase64 = base64Atx,
         TotalActiveSmeshers = atxEpoch,
         NextEpoch = Some
           \<lparr>ne_Epoch = epoch + 1,
            ne_EffectiveUnitsCommited = TotalEffectiveNumUnits atxNextEpochTotals,
            ne_TotalActiveSmeshers = atxNextEpoch\<rparr>\<rparr>)\<rparr>)"
  using assms by (simp add: fetchNetworkInfo_def Let_def)

lemma fetchNetworkInfo_published:
  assumes "fst (fetchNetworkInfo F n) = None"
  obtains layer atxEpoch atxNextEpoch totalAccounts networkInfoRow atxEpochTotals
    atxNextEpochTotals hexAtx base64Atx totalSlots
  where "GetLastProcessedLayer (db n) = Inr layer"
    and "CountAtxEpoch (db n) (ucast (nu_GetEpoch (networkUtils n) (Layer layer) - 1)) = Inr atxEpoch"
    and "CountAtxEpoch (db n) (ucast (nu_GetEpoch (networkUtils n) (Layer layer))) = Inr atxNextEpoch"
    and "CountAccounts (db n) = Inr totalAccounts"
    and "GetNetworkInfo (db n) = Inr networkInfoRow"
    and "GetAtxEpoch (db n) (ucast (nu_GetEpoch (networkUtils n) (Layer layer) - 1)) = Inr atxEpochTotals"
    and "GetAtxEpoch (db n) (ucast (nu_GetEpoch (networkUtils n) (Layer layer))) = Inr atxNextEpochTotals"
    and "getHigestAtx n (ucast (nu_GetEpoch (networkUtils n) (Layer layer) - 1)) = Inr hexAtx"
    and "hexToBase64 hexAtx = Inr base64Atx"
    and "nu_GetNumberOfSlots (networkUtils n)
           (TotalWeight atxEpochTotals) (TotalWeight atxEpochTotals)
           (nu_GetEpoch (networkUtils n) (Layer layer)) = Inr totalSlots"
  using assms unfolding fetchNetworkInfo_def Let_def
  by (auto split: sum.splits)

lemma fetchNetworkInfo_aborted:
  "fst (fetchNetworkInfo F n) \<noteq> None \<Longrightarrow> snd (fetchNetworkInfo F n) = n"
  unfolding fetchNetworkInfo_def Let_def
  by (auto split: sum.splits)

lemma fetchNetworkInfo_fails_iff:
  "some_step_fails n \<longleftrightarrow> fst (fetchNetworkInfo F n) \<noteq> None"
  unfolding fetchNetworkInfo_def some_step_fails_def Let_def
  by (auto split: sum.splits)

lemma fetchNetworkInfo_published_snapshot:
  assumes "fst (fetchNetworkInfo F n) = None"
    and "GetLastProcessedLayer (db n) = Inr layer"
    and "nu_GetEpoch (networkUtils n) (Layer layer) = epoch"
  obtains atxEpoch atxNextEpoch totalAccounts networkInfoRow atxEpochTotals
    atxNextEpochTotals hexAtx base64Atx totalSlots
  where "CountAtxEpoch (db n) (ucast (epoch - 1)) = Inr atxEpoch"
    and "CountAtxEpoch (db n) (ucast epoch) = Inr atxNextEpoch"
    and "CountAccounts (db n) = Inr totalAccounts"
    and "GetNetworkInfo (db n) = Inr networkInfoRow"
    and "GetAtxEpoch (db n) (ucast (epoch - 1)) = Inr atxEpochTotals"
    and "GetAtxEpoch (db n) (ucast epoch) = Inr atxNextEpochTotals"
    and "getHigestAtx n (ucast (epoch - 1)) = Inr hexAtx"
    and "hexToBase64 hexAtx = Inr base64Atx"
    and "nu_GetNumberOfSlots (networkUtils n)
           (TotalWeight atxEpochTotals) (TotalWeight atxEpochTotals) epoch = Inr totalSlots"
    and "snapshot_after F n =
        \<lparr>Epoch = epoch,
         EpochSubsidy = nu_GetEpochSubsidy (networkUtils n) (ucast epoch),
         ni_Layer = Layer layer,
         TotalSlots = totalSlots,
         ni_TotalWeight = TotalWeight atxEpochTotals,
         EffectiveUnitsCommited = TotalEffectiveNumUnits atxEpochTotals,
         CirculatingSupply = db_CirculatingSupply networkInfoRow,
         Price = GetPrice (priceResolver n),
         MarketCap =
           f64_to_uint64 F (f64_mul F (f64_of_uint64 F (db_CirculatingSupply networkInfoRow))
             (GetPrice (priceResolver n))),
         TotalAccounts = totalAccounts + genisesAccounts,
         AtxHex = hexAtx,
         AtxBase64 = base64Atx,
         TotalActiveSmeshers = atxEpoch,
         NextEpoch = Some
           \<lparr>ne_Epoch = epoch + 1,
            ne_EffectiveUnitsCommited = TotalEffectiveNumUnits atxNextEpochTotals,
            ne_TotalActiveSmeshers = atxNextEpoch\<rparr>\<rparr>"
proof -
  from assms(1) obtain layer' atxEpoch atxNextEpoch totalAccounts networkInfoRow atxEpochTotals
    atxNextEpochTotals hexAtx base64Atx totalSlots
    where s: "GetLastProcessedLayer (db n) = Inr layer'"
     "CountAtxEpoch (db n) (ucast (nu_GetEpoch (networkUtils n) (Layer layer') - 1)) = Inr atxEpoch"
     "CountAtxEpoch (db n) (ucast (nu_GetEpoch (networkUtils n) (Layer layer'))) = Inr atxNextEpoch"
     "CountAccounts (db n) = Inr totalAccounts"
     "GetNetworkInfo (db n) = Inr networkInfoRow"
     "GetAtxEpoch (db n) (ucast (nu_GetEpoch (networkUtils n) (Layer layer') - 1)) = Inr atxEpochTotals"
     "GetAtxEpoch (db n) (ucast (nu_GetEpoch (networkUtils n) (Layer layer'))) = Inr atxNextEpochTotals"
     "getHigestAtx n (ucast (nu_GetEpoch (networkUtils n) (Layer layer') - 1)) = Inr hexAtx"
     "hexToBase64 hexAtx = Inr base64Atx"
     "nu_GetNumberOfSlots (networkUtils n)
           (TotalWeight atxEpochTotals) (TotalWeight atxEpochTotals)
           (nu_GetEpoch (networkUtils n) (Layer layer')) = Inr totalSlots"
    by (rule fetchNetworkInfo_published)
  from s(1) assms(2) have same: "layer' = layer" by simp
  note t = s(2-10) [unfolded same assms(3)]
  from fetchNetworkInfo_success [OF assms(2,3) t, of F]
  have "snapshot_after F n =
        \<lparr>Epoch = epoch,
         EpochSubsidy = nu_GetEpochSubsidy (networkUtils n) (ucast epoch),
         ni_Layer = Layer layer,
         TotalSlots = totalSlots,
         ni_TotalWeight = TotalWeight atxEpochTotals,
         EffectiveUnitsCommited = TotalEffectiveNumUnits atxEpochTotals,
         CirculatingSupply = db_CirculatingSupply networkInfoRow,
         Price = GetPrice (priceResolver n),
         MarketCap =
           f64_to_uint64 F (f64_mul F (f64_of_uint64 F (db_CirculatingSupply networkInfoRow))
             (GetPrice (priceResolver n))),
         TotalAccounts = totalAccounts + genisesAccounts,
         AtxHex = hexAtx,
         AtxBase64 = base64Atx,
         TotalActiveSmeshers = atxEpoch,
         NextEpoch = Some
           \<lparr>ne_Epoch = epoch + 1,
            ne_EffectiveUnitsCommited = TotalEffectiveNumUnits atxNextEpochTotals,
            ne_TotalActiveSmeshers = atxNextEpoch\<rparr>\<rparr>"
    by (simp add: GetInfo_def)
  with t show thesis by (rule that)
qed

subsection \<open>The subsidy loop\<close>

lemma word_le_pred_iff:
  fixes e i :: u32
  assumes "2 \<le> i"
  shows "e \<le> i \<longleftrightarrow> e \<le> i - 1 \<or> e = i"
proof -
  from assms have nz: "i \<noteq> 0" by auto
  then have "unat (i - 1) = unat i - 1" by (simp add: unat_minus_one)
  moreover from nz have "0 < unat i" by (simp add: unat_gt_0)
  ultimately show ?thesis
    by (auto simp: word_le_nat_alt word_unat_eq_iff)
qed

lemma word_pred_not_ge:
  fixes i :: u32
  assumes "2 \<le> i"
  shows "\<not> i \<le> i - 1"
proof -
  from assms have nz: "i \<noteq> 0" by auto
  then have "unat (i - 1) = unat i - 1" by (simp add: unat_minus_one)
  moreover from nz have "0 < unat i" by (simp add: unat_gt_0)
  ultimately show ?thesis by (simp add: word_le_nat_alt)
qed

lemma subsidy_loop_char:
  "subsidy_loop u i t e =
     (if 2 \<le> e \<and> e \<le> i then Some (nu_GetEpochSubsidy u (ucast e)) else t e)"
proof (induction u i t rule: subsidy_loop.induct)
  case (1 u i t)
  show ?case
  proof (cases "2 \<le> i")
    case True
    have step: "subsidy_loop u i t = subsidy_loop u (i - 1) (t(i \<mapsto> nu_GetEpochSubsidy u (ucast i)))"
      using True by (subst subsidy_loop.simps) simp
    show ?thesis
      unfolding step "1.IH" [OF True]
      using True word_le_pred_iff [OF True, of e] word_pred_not_ge [OF True]
      by auto
  next
    case False
    then have "subsidy_loop u i t = t"
      by (subst subsidy_loop.simps) simp
    moreover from False have "\<not> (2 \<le> e \<and> e \<le> i)" by auto
    ultimately show ?thesis by auto
  qed
qed

lemma calculateEpochSubsidies_table:
  assumes "GetLastProcessedLayer (db n) = Inr layer"
    and "nu_GetEpoch (networkUtils n) (Layer layer) = E"
  shows "epochSubsidies (snd (calculateEpochSubsidies n)) e =
     (if 2 \<le> e \<and> e \<le> E + 1 then Some (nu_GetEpochSubsidy (networkUtils n) (ucast e))
      else epochSubsidies n e)"
  using assms by (simp add: calculateEpochSubsidies_def Let_def subsidy_loop_char)

lemma calculateEpochSubsidies_frame:
  "db (snd (calculateEpochSubsidies n)) = db n \<and>
   networkUtils (snd (calculateEpochSubsidies n)) = networkUtils n \<and>
   networkInfo (snd (calculateEpochSubsidies n)) = networkInfo n"
  by (simp add: calculateEpochSubsidies_def Let_def split: sum.splits)

lemma calculateEpochSubsidies_failed:
  "GetLastProcessedLayer (db m) = Inl err \<Longrightarrow> snd (calculateEpochSubsidies m) = m"
  by (simp add: calculateEpochSubsidies_def)

lemma fetchNetworkInfo_frame:
  "db (snd (fetchNetworkInfo F n)) = db n \<and>
   networkUtils (snd (fetchNetworkInfo F n)) = networkUtils n \<and>
   epochSubsidies (snd (fetchNetworkInfo F n)) = epochSubsidies n"
  by (simp add: fetchNetworkInfo_def Let_def split: sum.splits)

lemma NewNetworkState_no_low_epochs:
  "e < 2 \<Longrightarrow> epochSubsidies (NewNetworkState F d u p) e = None"
proof -
  assume low: "e < 2"
  let ?s0 = "\<lparr>db = d, networkUtils = u, networkInfo = Map.empty,
              epochSubsidies = Map.empty, priceResolver = p\<rparr>"
  let ?s1 = "snd (fetchNetworkInfo F ?s0)"
  have empty: "epochSubsidies ?s1 = Map.empty"
    using fetchNetworkInfo_frame [of F ?s0] by simp
  have "epochSubsidies (snd (calculateEpochSubsidies ?s1)) e = None"
  proof (cases "GetLastProcessedLayer (db ?s1)")
    case (Inl err)
    from calculateEpochSubsidies_failed [OF this] empty show ?thesis by simp
  next
    case (Inr layer)
    from low have "\<not> 2 \<le> e" by simp
    with calculateEpochSubsidies_table [OF Inr refl, of e] empty show ?thesis by simp
  qed
  then show ?thesis by (simp add: NewNetworkState_def Let_def)
qed

subsection \<open>The scenario, evaluated\<close>

lemma scenario_getHigestAtx: "getHigestAtx scenario_state 9 = Inr ''cc03''"
  by (simp add: getHigestAtx_def scenario_state_def scenario_db_def highest_of_def
      scenario_atxs_def malfeasanceNodesMap_def map_index_def)

lemma hexToBase64_cc03: "hexToBase64 ''cc03'' = Inr ''zAM=''"
  by (simp add: hexToBase64_def fromHexChar_def enc_def encodeStd_def)

lemma scenario_fetch:
  "fetchNetworkInfo real_Float64 scenario_state =
     (None,
      scenario_state\<lparr>networkInfo := [INFO_KEY \<mapsto>
        \<lparr>Epoch = 10, EpochSubsidy = 5, ni_Layer = 4000, TotalSlots = 3010,
         ni_TotalWeight = 1000, EffectiveUnitsCommited = 50, CirculatingSupply = 2000000,
         Price = 1 / 20, MarketCap = 100000, TotalAccounts = 128,
         AtxHex = ''cc03'', AtxBase64 = ''zAM='', TotalActiveSmeshers = 12,
         NextEpoch = Some \<lparr>ne_Epoch = 11, ne_EffectiveUnitsCommited = 60,
                            ne_TotalActiveSmeshers = 15\<rparr>\<rparr>]\<rparr>)"
proof -
  have l: "GetLastProcessedLayer (db scenario_state) = Inr \<lparr>Layer = 4000\<rparr>"
    by (simp add: scenario_state_def scenario_db_def)
  have e: "nu_GetEpoch (networkUtils scenario_state) (Layer \<lparr>Layer = 4000\<rparr>) = 10"
    by (simp add: scenario_state_def scenario_utils_def)
  have h: "getHigestAtx scenario_state (ucast ((10 :: u32) - 1)) = Inr ''cc03''"
    using scenario_getHigestAtx by simp
  have c1: "CountAtxEpoch (db scenario_state) (ucast ((10 :: u32) - 1)) = Inr 12"
    and c2: "CountAtxEpoch (db scenario_state) (ucast (10 :: u32)) = Inr 15"
    and c3: "CountAccounts (db scenario_state) = Inr 100"
    and c4: "GetNetworkInfo (db scenario_state) = Inr \<lparr>db_CirculatingSupply = 2000000\<rparr>"
    and c5: "GetAtxEpoch (db scenario_state) (ucast ((10 :: u32) - 1))
               = Inr \<lparr>TotalWeight = 1000, TotalEffectiveNumUnits = 50\<rparr>"
    and c6: "GetAtxEpoch (db scenario_state) (ucast (10 :: u32))
               = Inr \<lparr>TotalWeight = 1200, TotalEffectiveNumUnits = 60\<rparr>"
    by (simp_all add: scenario_state_def scenario_db_def)
  have c7: "nu_GetNumberOfSlots (networkUtils scenario_state)
              (TotalWeight \<lparr>TotalWeight = 1000, TotalEffectiveNumUnits = 50\<rparr>)
              (TotalWeight \<lparr>TotalWeight = 1000, TotalEffectiveNumUnits = 50\<rparr>) 10 = Inr 3010"
    by (simp add: scenario_state_def scenario_utils_def)
  show ?thesis
    using fetchNetworkInfo_success [OF l e c1 c2 c3 c4 c5 c6 h hexToBase64_cc03 c7, of real_Float64]
    by (simp add: scenario_state_def scenario_utils_def real_Float64_def genisesAccounts_def)
qed

section \<open>C1: what highest-ATX selection returns\<close>

text \<open>
  C1 (as amended). With both queries answered, \<open>getHigestAtx\<close> returns no error. When
  some ATX of a clean node (one not in the malfeasance list) has a height above zero,
  the identifier returned is that of the first-encountered ATX of greatest height among
  the clean ones: every clean ATX before it is strictly lower, every clean ATX after it
  is at most as high, so a flagged node's higher ATX is passed over and a later tie does
  not replace it. Otherwise the empty identifier is returned. The height is the 64-bit
  sum \<open>BaseTick + TickCount\<close>; the tracked maximum starts at 0, so an ATX of height 0 is
  never selected.
\<close>

theorem getHigestAtx_first_highest_clean:
  assumes "GetAtxForEpoch (db n) e = Inr atxs"
    and "GetMalfeasanceNodes (db n) = Inr nodes"
  shows "\<exists>r. getHigestAtx n e = Inr r \<and>
     (if \<exists>a\<in>set atxs. clean nodes a \<and> 0 < height a
      then \<exists>pre a post. atxs = pre @ a # post \<and> clean nodes a \<and> 0 < height a \<and>
             r = AtxID a \<and>
             (\<forall>b\<in>set pre. clean nodes b \<longrightarrow> height b < height a) \<and>
             (\<forall>b\<in>set post. clean nodes b \<longrightarrow> height b \<le> height a)
      else r = '''')"
proof -
  have "getHigestAtx n e = Inr (highest_of atxs nodes)"
    using assms by (simp add: getHigestAtx_def)
  with highest_of_char [of atxs nodes] show ?thesis by simp
qed

text \<open>
  The scenario's ATX list: the flagged node's ATX of height 250 is passed over, and of
  the two clean ATXs of height 120 the first, \<open>cc03\<close>, is returned.
\<close>

theorem getHigestAtx_first_highest_clean_witness:
  "getHigestAtx scenario_state 9 = Inr ''cc03'' \<and>
   (\<exists>pre a post. scenario_atxs = pre @ a # post \<and> clean [\<lparr>ID = ''m1''\<rparr>] a \<and> 0 < height a \<and>
      ''cc03'' = AtxID a \<and>
      (\<forall>b\<in>set pre. clean [\<lparr>ID = ''m1''\<rparr>] b \<longrightarrow> height b < height a) \<and>
      (\<forall>b\<in>set post. clean [\<lparr>ID = ''m1''\<rparr>] b \<longrightarrow> height b \<le> height a))"
proof -
  have q1: "GetAtxForEpoch (db scenario_state) 9 = Inr scenario_atxs"
    by (simp add: scenario_state_def scenario_db_def)
  have q2: "GetMalfeasanceNodes (db scenario_state) = Inr [\<lparr>ID = ''m1''\<rparr>]"
    by (simp add: scenario_state_def scenario_db_def)
  have ex: "\<exists>a\<in>set scenario_atxs. clean [\<lparr>ID = ''m1''\<rparr>] a \<and> 0 < height a"
    by (simp add: scenario_atxs_def clean_def height_def)
  have val: "getHigestAtx scenario_state 9 = Inr ''cc03''"
    by (simp add: getHigestAtx_def q1 q2 highest_of_def
        scenario_atxs_def malfeasanceNodesMap_def map_index_def)
  from getHigestAtx_first_highest_clean [OF q1 q2] ex val show ?thesis
    by simp
qed

text \<open>
  C1 as first stated fails on a single clean ATX of height 0: it is the first ATX that
  is higher than every earlier clean one, and the empty identifier is returned instead
  of its own.
\<close>

theorem getHigestAtx_zero_height_counterexample:
  "clean [] \<lparr>AtxID = ''a'', NodeID = ''n'', BaseTick = 0, TickCount = 0\<rparr> \<and>
   highest_of [\<lparr>AtxID = ''a'', NodeID = ''n'', BaseTick = 0, TickCount = 0\<rparr>] [] = '''' \<and>
   highest_of [\<lparr>AtxID = ''a'', NodeID = ''n'', BaseTick = 0, TickCount = 0\<rparr>] []
     \<noteq> AtxID \<lparr>AtxID = ''a'', NodeID = ''n'', BaseTick = 0, TickCount = 0\<rparr>"
  by (simp add: clean_def highest_of_def malfeasanceNodesMap_def map_index_def)

section \<open>C2: a failed cycle publishes nothing\<close>

text \<open>
  C2. If any step of a refresh cycle fails (the last processed layer, either epoch
  count, the accounts count, the network-info query, either epoch-totals query, the
  highest-ATX selection, the base64 conversion or the slot computation), the cycle
  prints its failure line and returns the state as it was: the published snapshot, or
  the absence of one, is unchanged, and \<open>GetInfo\<close> answers as before. When no step
  fails, the cycle prints nothing and the state differs from the old one in the entry
  under \<open>INFO_KEY\<close> only: the one store.
\<close>

theorem fetchNetworkInfo_all_or_nothing:
  "(some_step_fails n \<longrightarrow>
      (\<exists>line. fst (fetchNetworkInfo F n) = Some line) \<and>
      snd (fetchNetworkInfo F n) = n \<and>
      networkInfo (snd (fetchNetworkInfo F n)) = networkInfo n \<and>
      snapshot_after F n = GetInfo F n) \<and>
   (\<not> some_step_fails n \<longrightarrow>
      fst (fetchNetworkInfo F n) = None \<and>
      (\<exists>info. snd (fetchNetworkInfo F n) = n\<lparr>networkInfo := (networkInfo n)(INFO_KEY \<mapsto> info)\<rparr>))"
proof (cases "some_step_fails n")
  case True
  with fetchNetworkInfo_fails_iff [of n F] have f: "fst (fetchNetworkInfo F n) \<noteq> None"
    by blast
  from fetchNetworkInfo_aborted [OF f] f True show ?thesis by auto
next
  case False
  with fetchNetworkInfo_fails_iff [of n F] have p: "fst (fetchNetworkInfo F n) = None"
    by blast
  then obtain layer atxEpoch atxNextEpoch totalAccounts networkInfoRow atxEpochTotals
    atxNextEpochTotals hexAtx base64Atx totalSlots
    where "GetLastProcessedLayer (db n) = Inr layer"
    and "CountAtxEpoch (db n) (ucast (nu_GetEpoch (networkUtils n) (Layer layer) - 1)) = Inr atxEpoch"
    and "CountAtxEpoch (db n) (ucast (nu_GetEpoch (networkUtils n) (Layer layer))) = Inr atxNextEpoch"
    and "CountAccounts (db n) = Inr totalAccounts"
    and "GetNetworkInfo (db n) = Inr networkInfoRow"
    and "GetAtxEpoch (db n) (ucast (nu_GetEpoch (networkUtils n) (Layer layer) - 1)) = Inr atxEpochTotals"
    and "GetAtxEpoch (db n) (ucast (nu_GetEpoch (networkUtils n) (Layer layer))) = Inr atxNextEpochTotals"
    and "getHigestAtx n (ucast (nu_GetEpoch (networkUtils n) (Layer layer) - 1)) = Inr hexAtx"
    and "hexToBase64 hexAtx = Inr base64Atx"
    and "nu_GetNumberOfSlots (networkUtils n)
           (TotalWeight atxEpochTotals) (TotalWeight atxEpochTotals)
           (nu_GetEpoch (networkUtils n) (Layer layer)) = Inr totalSlots"
    by (rule fetchNetworkInfo_published)
  from fetchNetworkInfo_success [OF this(1) refl this(2-10), of F]
  have "\<exists>info. snd (fetchNetworkInfo F n) = n\<lparr>networkInfo := (networkInfo n)(INFO_KEY \<mapsto> info)\<rparr>"
    by auto
  with p False show ?thesis by simp
qed

text \<open>
  With the accounts query failing, the snapshot of epoch 9 stays in place; on the
  scenario, where every step succeeds, the snapshot of epoch 10 is stored.
\<close>

theorem fetchNetworkInfo_all_or_nothing_witness:
  "some_step_fails stale_state \<and>
   fetchNetworkInfo real_Float64 stale_state =
     (Some (''Failed to count accounts: '', ExternalError ''connection lost''), stale_state) \<and>
   Epoch (snapshot_after real_Float64 stale_state) = 9 \<and>
   \<not> some_step_fails scenario_state \<and>
   fst (fetchNetworkInfo real_Float64 scenario_state) = None \<and>
   Epoch (snapshot_after real_Float64 scenario_state) = 10"
proof -
  have a: "fetchNetworkInfo real_Float64 stale_state =
     (Some (''Failed to count accounts: '', ExternalError ''connection lost''), stale_state)"
    by (simp add: fetchNetworkInfo_def Let_def stale_state_def scenario_state_def
        scenario_db_def scenario_utils_def)
  have b: "Epoch (GetInfo real_Float64 stale_state) = 9"
    by (simp add: GetInfo_def stale_state_def)
  have c: "Epoch (snapshot_after real_Float64 scenario_state) = 10"
    by (simp add: scenario_fetch GetInfo_def)
  have d: "fst (fetchNetworkInfo real_Float64 scenario_state) = None"
    by (simp add: scenario_fetch)
  from fetchNetworkInfo_all_or_nothing [of stale_state real_Float64]
    fetchNetworkInfo_all_or_nothing [of scenario_state real_Float64] a b c d
  show ?thesis by auto
qed

section \<open>C3: the subsidy table after a refresh\<close>

text \<open>
  C3. Let the last processed layer map to epoch \<open>E\<close>, let the table hold no entry below
  epoch 2 (it never does: it starts empty and only this loop writes to it), and let
  EpochMath's subsidy be non-zero from epoch 2 on. After one run of
  \<open>calculateEpochSubsidies\<close>, for every epoch \<open>e\<close> with \<open>2 \<le> e \<le> E + 1\<close> (in the loop's
  32-bit arithmetic) \<open>GetEpochSubsidy e\<close> is EpochMath's subsidy of \<open>e\<close>, is non-zero, and
  is the same after any further run, whatever the read port answers then; for every
  \<open>e < 2\<close> it is 0. The loop writes the entries from \<open>E + 1\<close> down to 2 and no other.
\<close>

theorem calculateEpochSubsidies_coverage:
  assumes "GetLastProcessedLayer (db n) = Inr layer"
    and "nu_GetEpoch (networkUtils n) (Layer layer) = E"
    and "\<forall>e. e < 2 \<longrightarrow> epochSubsidies n e = None"
    and "\<forall>e :: u32. 2 \<le> e \<longrightarrow> nu_GetEpochSubsidy (networkUtils n) (ucast e) \<noteq> 0"
  shows "(\<forall>e. 2 \<le> e \<and> e \<le> E + 1 \<longrightarrow>
            GetEpochSubsidy (snd (calculateEpochSubsidies n)) e
              = nu_GetEpochSubsidy (networkUtils n) (ucast e) \<and>
            GetEpochSubsidy (snd (calculateEpochSubsidies n)) e \<noteq> 0 \<and>
            (\<forall>d. GetEpochSubsidy
                   (snd (calculateEpochSubsidies ((snd (calculateEpochSubsidies n))\<lparr>db := d\<rparr>))) e
                 = GetEpochSubsidy (snd (calculateEpochSubsidies n)) e)) \<and>
         (\<forall>e. e < 2 \<longrightarrow> GetEpochSubsidy (snd (calculateEpochSubsidies n)) e = 0) \<and>
         (\<forall>e. \<not> (2 \<le> e \<and> e \<le> E + 1) \<longrightarrow>
            epochSubsidies (snd (calculateEpochSubsidies n)) e = epochSubsidies n e)"
proof -
  let ?n1 = "snd (calculateEpochSubsidies n)"
  note tab = calculateEpochSubsidies_table [OF assms(1,2)]
  have utils: "networkUtils ?n1 = networkUtils n"
    using calculateEpochSubsidies_frame [of n] by simp
  have covered: "GetEpochSubsidy ?n1 e = nu_GetEpochSubsidy (networkUtils n) (ucast e)"
    if "2 \<le> e \<and> e \<le> E + 1" for e
    using that by (simp add: GetEpochSubsidy_def tab)
  have nonzero: "GetEpochSubsidy ?n1 e \<noteq> 0" if "2 \<le> e \<and> e \<le> E + 1" for e
    using covered [OF that] that assms(4) by simp
  have stable: "GetEpochSubsidy (snd (calculateEpochSubsidies (?n1\<lparr>db := d\<rparr>))) e
                  = GetEpochSubsidy ?n1 e"
    if r: "2 \<le> e \<and> e \<le> E + 1" for e d
  proof (cases "GetLastProcessedLayer d")
    case (Inl err)
    then have "GetLastProcessedLayer (db (?n1\<lparr>db := d\<rparr>)) = Inl err" by simp
    from calculateEpochSubsidies_failed [OF this] show ?thesis
      by (simp add: GetEpochSubsidy_def)
  next
    case (Inr layer')
    have l: "GetLastProcessedLayer (db (?n1\<lparr>db := d\<rparr>)) = Inr layer'"
      using Inr by simp
    have "epochSubsidies (snd (calculateEpochSubsidies (?n1\<lparr>db := d\<rparr>))) e
            = epochSubsidies ?n1 e"
      using r by (simp add: calculateEpochSubsidies_table [OF l refl] utils tab)
    then show ?thesis by (simp add: GetEpochSubsidy_def)
  qed
  have below: "GetEpochSubsidy ?n1 e = 0" if "e < 2" for e
  proof -
    from that have "\<not> 2 \<le> e" by simp
    with that assms(3) show ?thesis by (simp add: GetEpochSubsidy_def tab)
  qed
  have untouched: "epochSubsidies ?n1 e = epochSubsidies n e"
    if "\<not> (2 \<le> e \<and> e \<le> E + 1)" for e
    using that by (auto simp: tab)
  from covered nonzero stable below untouched show ?thesis by blast
qed

text \<open>
  The scenario (epoch 10): the entries 11 down to 2 hold the subsidies, 1 and 0 read as
  0, 12 is not written, and a second run leaves the entry of epoch 3 as it is.
\<close>

theorem calculateEpochSubsidies_coverage_witness:
  "GetEpochSubsidy (snd (calculateEpochSubsidies scenario_state)) 11 = 5 \<and>
   GetEpochSubsidy (snd (calculateEpochSubsidies scenario_state)) 3 = 7 \<and>
   GetEpochSubsidy (snd (calculateEpochSubsidies scenario_state)) 2 = 5 \<and>
   GetEpochSubsidy (snd (calculateEpochSubsidies scenario_state)) 1 = 0 \<and>
   GetEpochSubsidy (snd (calculateEpochSubsidies scenario_state)) 0 = 0 \<and>
   epochSubsidies (snd (calculateEpochSubsidies scenario_state)) 12 = None \<and>
   GetEpochSubsidy (snd (calculateEpochSubsidies
      ((snd (calculateEpochSubsidies scenario_state))\<lparr>db := scenario_db\<rparr>))) 3 = 7"
proof -
  have l: "GetLastProcessedLayer (db scenario_state) = Inr \<lparr>Layer = 4000\<rparr>"
    by (simp add: scenario_state_def scenario_db_def)
  have e: "nu_GetEpoch (networkUtils scenario_state) (Layer \<lparr>Layer = 4000\<rparr>) = 10"
    by (simp add: scenario_state_def scenario_utils_def)
  have i: "\<forall>e. e < 2 \<longrightarrow> epochSubsidies scenario_state e = None"
    by (simp add: scenario_state_def)
  have z: "\<forall>e :: u32. 2 \<le> e \<longrightarrow> nu_GetEpochSubsidy (networkUtils scenario_state) (ucast e) \<noteq> 0"
    by (simp add: scenario_state_def scenario_utils_def)
  have v: "nu_GetEpochSubsidy (networkUtils scenario_state) (ucast (11 :: u32)) = 5"
    "nu_GetEpochSubsidy (networkUtils scenario_state) (ucast (3 :: u32)) = 7"
    "nu_GetEpochSubsidy (networkUtils scenario_state) (ucast (2 :: u32)) = 5"
    by (simp_all add: scenario_state_def scenario_utils_def)
  have o: "epochSubsidies scenario_state 12 = None"
    by (simp add: scenario_state_def)
  note t = calculateEpochSubsidies_coverage [OF l e i z]
  from t have c: "\<And>e. 2 \<le> e \<and> e \<le> 10 + 1 \<Longrightarrow>
      GetEpochSubsidy (snd (calculateEpochSubsidies scenario_state)) e
        = nu_GetEpochSubsidy (networkUtils scenario_state) (ucast e)"
    and s: "\<And>e d. 2 \<le> e \<and> e \<le> 10 + 1 \<Longrightarrow>
      GetEpochSubsidy (snd (calculateEpochSubsidies
         ((snd (calculateEpochSubsidies scenario_state))\<lparr>db := d\<rparr>))) e
        = GetEpochSubsidy (snd (calculateEpochSubsidies scenario_state)) e"
    and b: "\<And>e. e < 2 \<Longrightarrow> GetEpochSubsidy (snd (calculateEpochSubsidies scenario_state)) e = 0"
    and u: "\<And>e. \<not> (2 \<le> e \<and> e \<le> 10 + 1) \<Longrightarrow>
      epochSubsidies (snd (calculateEpochSubsidies scenario_state)) e = epochSubsidies scenario_state e"
    by blast+
  have "GetEpochSubsidy (snd (calculateEpochSubsidies scenario_state)) 11 = 5"
    using c [of 11] v by simp
  moreover have "GetEpochSubsidy (snd (calculateEpochSubsidies scenario_state)) 3 = 7"
    using c [of 3] v by simp
  moreover have "GetEpochSubsidy (snd (calculateEpochSubsidies scenario_state)) 2 = 5"
    using c [of 2] v by simp
  moreover have "GetEpochSubsidy (snd (calculateEpochSubsidies scenario_state)) 1 = 0"
    using b [of 1] by simp
  moreover have "GetEpochSubsidy (snd (calculateEpochSubsidies scenario_state)) 0 = 0"
    using b [of 0] by simp
  moreover have "epochSubsidies (snd (calculateEpochSubsidies scenario_state)) 12 = None"
    using u [of 12] o by simp
  moreover have "GetEpochSubsidy (snd (calculateEpochSubsidies
      ((snd (calculateEpochSubsidies scenario_state))\<lparr>db := scenario_db\<rparr>))) 3 = 7"
    using s [of 3 scenario_db] c [of 3] v by simp
  ultimately show ?thesis by simp
qed

section \<open>C4: a message that does not decode\<close>

text \<open>
  C4 (what the code does; the claim asks for a negative acknowledgement and the next
  message). When the payload of a message fails to decode, the rewards worker and the
  layers worker both stop for good at that message: the process ends, by the panic of
  reading a field through the nil pointer or by \<open>log.Fatal\<close>. Nothing is answered to the
  message (no \<open>Nak\<close>), nothing is saved, and neither the rest of the batch nor any later
  batch is processed.
\<close>

theorem decode_failure_ends_the_worker:
  assumes "snd (Unmarshal (Data msg)) \<noteq> None"
    and "err \<noteq> Some ErrTimeout"
  shows "fst (StartRewardsSink Unmarshal Save ((msg # msgs, err) # later) st) \<noteq> Running \<and>
     snd (StartRewardsSink Unmarshal Save ((msg # msgs, err) # later) st) = st \<and>
     fst (StartLayersSink Unmarshal Save ((msg # msgs, err) # later) st) \<noteq> Running \<and>
     snd (StartLayersSink Unmarshal Save ((msg # msgs, err) # later) st) = st"
proof -
  obtain r e where u: "Unmarshal (Data msg) = (r, Some e)"
    using assms(1) by (cases "Unmarshal (Data msg)") auto
  show ?thesis
    using assms(2) u
    by (cases r) (simp_all add: rewards_turn_def layers_turn_def)
qed

text \<open>
  A malformed payload followed by a well-formed one: both workers end at the first
  message, with no answer and nothing saved. The well-formed payload alone is saved and
  acknowledged.
\<close>

theorem decode_failure_ends_the_worker_witness:
  "StartRewardsSink example_Unmarshal example_Save
      [([\<lparr>Data = ''{''\<rparr>, \<lparr>Data = ''{}''\<rparr>], None), ([\<lparr>Data = ''{}''\<rparr>], None)]
      \<lparr>saved = [], replies = []\<rparr>
     = (NilPointerPanic, \<lparr>saved = [], replies = []\<rparr>) \<and>
   StartLayersSink example_Unmarshal example_Save
      [([\<lparr>Data = ''{''\<rparr>, \<lparr>Data = ''{}''\<rparr>], None), ([\<lparr>Data = ''{}''\<rparr>], None)]
      \<lparr>saved = [], replies = []\<rparr>
     = (NilPointerPanic, \<lparr>saved = [], replies = []\<rparr>) \<and>
   StartRewardsSink example_Unmarshal example_Save
      [([\<lparr>Data = ''{}''\<rparr>], None)] \<lparr>saved = [], replies = []\<rparr>
     = (Running, \<lparr>saved = [0], replies = [(\<lparr>Data = ''{}''\<rparr>, Ack)]\<rparr>)"
proof -
  have f: "snd (example_Unmarshal (Data \<lparr>Data = ''{''\<rparr>)) \<noteq> None"
    by (simp add: example_Unmarshal_def)
  have t: "(None :: fetch_error option) \<noteq> Some ErrTimeout" by simp
  have a: "fst (StartRewardsSink example_Unmarshal example_Save
      [([\<lparr>Data = ''{''\<rparr>, \<lparr>Data = ''{}''\<rparr>], None), ([\<lparr>Data = ''{}''\<rparr>], None)]
      \<lparr>saved = [], replies = []\<rparr>) = NilPointerPanic"
    by (simp add: rewards_turn_def example_Unmarshal_def)
  have b: "fst (StartLayersSink example_Unmarshal example_Save
      [([\<lparr>Data = ''{''\<rparr>, \<lparr>Data = ''{}''\<rparr>], None), ([\<lparr>Data = ''{}''\<rparr>], None)]
      \<lparr>saved = [], replies = []\<rparr>) = NilPointerPanic"
    by (simp add: layers_turn_def example_Unmarshal_def)
  have c: "StartRewardsSink example_Unmarshal example_Save
      [([\<lparr>Data = ''{}''\<rparr>], None)] \<lparr>saved = [], replies = []\<rparr>
     = (Running, \<lparr>saved = [0], replies = [(\<lparr>Data = ''{}''\<rparr>, Ack)]\<rparr>)"
    by (simp add: rewards_turn_def example_Unmarshal_def example_Save_def)
  from decode_failure_ends_the_worker [of example_Unmarshal "\<lparr>Data = ''{''\<rparr>" None
      example_Save "[\<lparr>Data = ''{}''\<rparr>]" "[([\<lparr>Data = ''{}''\<rparr>], None)]"
      "\<lparr>saved = [], replies = []\<rparr>", OF f t] a b c
  show ?thesis by (simp add: prod_eq_iff)
qed

section \<open>C5: nothing eligible to select\<close>

text \<open>
  C5. When the ATX list of the epoch is empty or every ATX in it is authored by a
  malfeasant node, \<open>getHigestAtx\<close> returns the empty identifier and no error, and the
  base64 conversion of the empty string succeeds with the empty string. In a refresh
  cycle that selects from such a list (the list of the epoch before the current one),
  neither of these two steps aborts the cycle, and when the cycle publishes, the
  snapshot's \<open>AtxHex\<close> and \<open>AtxBase64\<close> are both empty.
\<close>

theorem empty_selection_gives_empty_identifiers:
  assumes "GetAtxForEpoch (db n) e = Inr atxs"
    and "GetMalfeasanceNodes (db n) = Inr nodes"
    and "\<forall>a\<in>set atxs. \<not> clean nodes a"
  shows "getHigestAtx n e = Inr '''' \<and> hexToBase64 '''' = Inr '''' \<and>
     (\<forall>layer. GetLastProcessedLayer (db n) = Inr layer \<and>
               e = ucast (nu_GetEpoch (networkUtils n) (Layer layer) - 1) \<longrightarrow>
        (\<forall>err. fst (fetchNetworkInfo F n) \<noteq> Some (''Failed to get highest atx: '', err) \<and>
               fst (fetchNetworkInfo F n) \<noteq> Some (''Failed to get base64 atx: '', err)) \<and>
        (fst (fetchNetworkInfo F n) = None \<longrightarrow>
           AtxHex (snapshot_after F n) = '''' \<and> AtxBase64 (snapshot_after F n) = ''''))"
proof -
  have sel: "getHigestAtx n e = Inr ''''"
    using assms(1,2) highest_of_none_clean [OF assms(3)] by (simp add: getHigestAtx_def)
  have cyc: "(\<forall>err. fst (fetchNetworkInfo F n) \<noteq> Some (''Failed to get highest atx: '', err) \<and>
               fst (fetchNetworkInfo F n) \<noteq> Some (''Failed to get base64 atx: '', err)) \<and>
        (fst (fetchNetworkInfo F n) = None \<longrightarrow>
           AtxHex (snapshot_after F n) = '''' \<and> AtxBase64 (snapshot_after F n) = '''')"
    if l: "GetLastProcessedLayer (db n) = Inr layer"
      and e: "e = ucast (nu_GetEpoch (networkUtils n) (Layer layer) - 1)" for layer
    using sel l unfolding e fetchNetworkInfo_def Let_def GetInfo_def
    by (simp add: hexToBase64_empty split: sum.splits)
  from sel cyc show ?thesis by (simp add: hexToBase64_empty)
qed

text \<open>
  The scenario with the flagged node's ATX alone: the cycle publishes, with both
  identifiers empty.
\<close>

theorem empty_selection_gives_empty_identifiers_witness:
  "getHigestAtx flagged_only_state 9 = Inr '''' \<and> hexToBase64 '''' = Inr '''' \<and>
   fst (fetchNetworkInfo real_Float64 flagged_only_state) = None \<and>
   AtxHex (snapshot_after real_Float64 flagged_only_state) = '''' \<and>
   AtxBase64 (snapshot_after real_Float64 flagged_only_state) = ''''"
proof -
  let ?atxs = "[\<lparr>AtxID = ''bb02'', NodeID = ''m1'', BaseTick = 200, TickCount = 50\<rparr>]"
  have q1: "GetAtxForEpoch (db flagged_only_state) 9 = Inr ?atxs"
    by (simp add: flagged_only_state_def)
  have q2: "GetMalfeasanceNodes (db flagged_only_state) = Inr [\<lparr>ID = ''m1''\<rparr>]"
    by (simp add: flagged_only_state_def scenario_db_def)
  have q3: "\<forall>a\<in>set ?atxs. \<not> clean [\<lparr>ID = ''m1''\<rparr>] a"
    by (simp add: clean_def)
  have l: "GetLastProcessedLayer (db flagged_only_state) = Inr \<lparr>Layer = 4000\<rparr>"
    by (simp add: flagged_only_state_def scenario_db_def)
  have e: "(9 :: u64) = ucast (nu_GetEpoch (networkUtils flagged_only_state) (Layer \<lparr>Layer = 4000\<rparr>) - 1)"
    by (simp add: flagged_only_state_def scenario_state_def scenario_utils_def)
  note t = empty_selection_gives_empty_identifiers [OF q1 q2 q3, of real_Float64]
  from t have sel: "getHigestAtx flagged_only_state 9 = Inr ''''" by simp
  have pub: "fst (fetchNetworkInfo real_Float64 flagged_only_state) = None"
    using sel
    by (simp add: fetchNetworkInfo_def Let_def hexToBase64_empty flagged_only_state_def
        scenario_state_def scenario_db_def scenario_utils_def)
  from t l e pub show ?thesis by blast
qed

section \<open>C6: the fields of a published snapshot\<close>



section \<open>C7: the delivery groups registered at bootstrap\<close>



section \<open>C8: the read contract\<close>



section \<open>C9: the slot count\<close>

text \<open>
  C9. In a refresh cycle that succeeds, \<open>TotalSlots\<close> of the published snapshot is what
  EpochMath's \<open>GetNumberOfSlots\<close> returns for the total weight of epoch - 1, passed as
  both of its weight arguments, and the current epoch.
\<close>

theorem fetchNetworkInfo_total_slots:
  assumes "fst (fetchNetworkInfo F n) = None"
    and "GetLastProcessedLayer (db n) = Inr layer"
    and "nu_GetEpoch (networkUtils n) (Layer layer) = epoch"
  shows "\<exists>atxEpochTotals. GetAtxEpoch (db n) (ucast (epoch - 1)) = Inr atxEpochTotals \<and>
     nu_GetNumberOfSlots (networkUtils n)
       (TotalWeight atxEpochTotals) (TotalWeight atxEpochTotals) epoch
       = Inr (TotalSlots (snapshot_after F n))"
  using assms
  by (rule fetchNetworkInfo_published_snapshot) simp

text \<open>
  The scenario: weight 1000 of epoch 9, twice, and epoch 10 give 3010 slots.
\<close>

theorem fetchNetworkInfo_total_slots_witness:
  "GetAtxEpoch (db scenario_state) 9 = Inr \<lparr>TotalWeight = 1000, TotalEffectiveNumUnits = 50\<rparr> \<and>
   nu_GetNumberOfSlots (networkUtils scenario_state) 1000 1000 10 = Inr 3010 \<and>
   TotalSlots (snapshot_after real_Float64 scenario_state) = 3010"
proof -
  have p: "fst (fetchNetworkInfo real_Float64 scenario_state) = None"
    by (simp add: scenario_fetch)
  have l: "GetLastProcessedLayer (db scenario_state) = Inr \<lparr>Layer = 4000\<rparr>"
    by (simp add: scenario_state_def scenario_db_def)
  have e: "nu_GetEpoch (networkUtils scenario_state) (Layer \<lparr>Layer = 4000\<rparr>) = 10"
    by (simp add: scenario_state_def scenario_utils_def)
  from fetchNetworkInfo_total_slots [OF p l e] show ?thesis
    by (auto simp: scenario_state_def scenario_db_def scenario_utils_def)
qed

section \<open>C10: the first epoch\<close>

text \<open>
  C10. When the last processed layer maps to epoch 0, \<open>epoch - 1\<close> is the largest 32-bit
  number, 4294967295, and that is the epoch number the previous-epoch count, the
  previous-epoch totals and the highest-ATX selection are asked for. No step is skipped:
  when these queries and the others succeed the cycle publishes, with \<open>Epoch = 0\<close> and
  with the count, totals, ATX and slots of epoch number 4294967295.
\<close>

theorem fetchNetworkInfo_epoch_zero_wraps:
  assumes "GetLastProcessedLayer (db n) = Inr layer"
    and "nu_GetEpoch (networkUtils n) (Layer layer) = 0"
    and "CountAtxEpoch (db n) 4294967295 = Inr atxEpoch"
    and "CountAtxEpoch (db n) 0 = Inr atxNextEpoch"
    and "CountAccounts (db n) = Inr totalAccounts"
    and "GetNetworkInfo (db n) = Inr networkInfoRow"
    and "GetAtxEpoch (db n) 4294967295 = Inr atxEpochTotals"
    and "GetAtxEpoch (db n) 0 = Inr atxNextEpochTotals"
    and "getHigestAtx n 4294967295 = Inr hexAtx"
    and "hexToBase64 hexAtx = Inr base64Atx"
    and "nu_GetNumberOfSlots (networkUtils n)
           (TotalWeight atxEpochTotals) (TotalWeight atxEpochTotals) 0 = Inr totalSlots"
  shows "(ucast (nu_GetEpoch (networkUtils n) (Layer layer) - 1) :: u64) = 4294967295 \<and>
     unat (nu_GetEpoch (networkUtils n) (Layer layer) - 1) = 2 ^ 32 - 1 \<and>
     fst (fetchNetworkInfo F n) = None \<and>
     Epoch (snapshot_after F n) = 0 \<and>
     TotalActiveSmeshers (snapshot_after F n) = atxEpoch \<and>
     ni_TotalWeight (snapshot_after F n) = TotalWeight atxEpochTotals \<and>
     EffectiveUnitsCommited (snapshot_after F n) = TotalEffectiveNumUnits atxEpochTotals \<and>
     AtxHex (snapshot_after F n) = hexAtx \<and>
     TotalSlots (snapshot_after F n) = totalSlots"
proof -
  have w: "(ucast ((0 :: u32) - 1) :: u64) = 4294967295"
    by (simp add: unsigned_minus_1_eq_mask mask_eq_exp_minus_1)
  have z: "(ucast (0 :: u32) :: u64) = 0" by simp
  have u: "unat ((0 :: u32) - 1) = 2 ^ 32 - 1"
    by (simp add: unsigned_minus_1_eq_mask mask_eq_exp_minus_1)
  note run = fetchNetworkInfo_success [of n layer 0, unfolded w z,
      OF assms(1-11), of F]
  from run w u show ?thesis
    by (simp add: assms(2) GetInfo_def)
qed

text \<open>
  A read port with rows for the epochs 0 and 4294967295 only: the cycle at layer 7
  (epoch 0) publishes what the rows of 4294967295 hold.
\<close>

theorem fetchNetworkInfo_epoch_zero_wraps_witness:
  "nu_GetEpoch (networkUtils genesis_state) 7 = 0 \<and>
   fst (fetchNetworkInfo real_Float64 genesis_state) = None \<and>
   Epoch (snapshot_after real_Float64 genesis_state) = 0 \<and>
   TotalActiveSmeshers (snapshot_after real_Float64 genesis_state) = 3 \<and>
   ni_TotalWeight (snapshot_after real_Float64 genesis_state) = 11 \<and>
   EffectiveUnitsCommited (snapshot_after real_Float64 genesis_state) = 2 \<and>
   AtxHex (snapshot_after real_Float64 genesis_state) = ''ee05'' \<and>
   TotalSlots (snapshot_after real_Float64 genesis_state) = 33"
proof -
  have l: "GetLastProcessedLayer (db genesis_state) = Inr \<lparr>Layer = 7\<rparr>"
    by (simp add: genesis_state_def genesis_db_def)
  have e: "nu_GetEpoch (networkUtils genesis_state) (Layer \<lparr>Layer = 7\<rparr>) = 0"
    by (simp add: genesis_state_def scenario_utils_def)
  have c1: "CountAtxEpoch (db genesis_state) 4294967295 = Inr 3"
    and c2: "CountAtxEpoch (db genesis_state) 0 = Inr 4"
    and c3: "CountAccounts (db genesis_state) = Inr 0"
    and c4: "GetNetworkInfo (db genesis_state) = Inr \<lparr>db_CirculatingSupply = 0\<rparr>"
    and c5: "GetAtxEpoch (db genesis_state) 4294967295
               = Inr \<lparr>TotalWeight = 11, TotalEffectiveNumUnits = 2\<rparr>"
    and c6: "GetAtxEpoch (db genesis_state) 0
               = Inr \<lparr>TotalWeight = 13, TotalEffectiveNumUnits = 5\<rparr>"
    by (simp_all add: genesis_state_def genesis_db_def)
  have h: "getHigestAtx genesis_state 4294967295 = Inr ''ee05''"
    by (simp add: getHigestAtx_def genesis_state_def genesis_db_def highest_of_def
        malfeasanceNodesMap_def map_index_def)
  have b: "hexToBase64 ''ee05'' = Inr ''7gU=''"
    by (simp add: hexToBase64_def fromHexChar_def enc_def encodeStd_def)
  have c7: "nu_GetNumberOfSlots (networkUtils genesis_state)
              (TotalWeight \<lparr>TotalWeight = 11, TotalEffectiveNumUnits = 2\<rparr>)
              (TotalWeight \<lparr>TotalWeight = 11, TotalEffectiveNumUnits = 2\<rparr>) 0 = Inr 33"
    by (simp add: genesis_state_def scenario_utils_def)
  from fetchNetworkInfo_epoch_zero_wraps [OF l e c1 c2 c3 c4 c5 c6 h b c7, of real_Float64] e
  show ?thesis by simp
qed

end
